theory Spec2Isabelle
  imports Main "HOL-Library.Sublist"
begin

section \<open>Items, conditions and exceptions\<close>

text \<open>
  An item is a Python dict from field names to values. The values are the tagged union
  the store accepts: string, number, boolean, binary, list and nested mapping.
\<close>

datatype val =
    S string
  | N int
  | BOOL bool
  | B string
  | L "val list"
  | M "(string \<times> val) list"

type_synonym item = "string \<rightharpoonup> val"

text \<open>
  The condition objects of \<open>boto3.dynamodb.conditions\<close>: \<open>Attr(a).exists()\<close> is
  \<open>AttributeExists a\<close>, \<open>Attr(a).contains(v)\<close> is \<open>Contains a v\<close>, \<open>And(c, d)\<close>
  is \<open>And c d\<close>. The caller's \<open>condition_expression\<close> is such an object or \<open>None\<close>;
  these classes define neither \<open>__bool__\<close> nor \<open>__len__\<close>, so every object is truthy
  and \<open>not condition_expression\<close> holds for \<open>None\<close> only.
\<close>

datatype condition =
    AttributeExists string
  | AttributeNotExists string
  | Contains string val
  | Equals string val
  | And condition condition
  | Or condition condition
  | NotCond condition

text \<open>
  The exceptions that can travel through the repository. \<open>ClientError code message\<close> is
  botocore's \<open>ClientError\<close> with \<open>err.response['Error']['Code']\<close> and
  \<open>err.response['Error']['Message']\<close>; \<open>BotoCoreError\<close> stands for the exceptions of the
  client library that are not a \<open>ClientError\<close> (parameter validation, no connection);
  \<open>RuntimeError\<close> and \<open>KeyError\<close> are Python's own.
\<close>

datatype exn =
    ClientError string string
  | BotoCoreError string
  | RuntimeError string
  | KeyError string

section \<open>The table handle\<close>

text \<open>
  Requests and responses of the table client. A response is a dict whose keys may be
  missing, so every key the repository reads is an option.
\<close>

datatype return_values = NONE | ALL_OLD | UPDATED_OLD | ALL_NEW | UPDATED_NEW

record update_item_request =
  Key :: item
  UpdateExpression :: string
  ExpressionAttributeNames :: "string \<rightharpoonup> string"
  ExpressionAttributeValues :: item
  ConditionExpression :: condition
  ReturnValues :: return_values

record read_request =
  Limit :: "int option"
  ExclusiveStartKey :: "item option"
  FilterExpression :: "condition option"

record get_item_response =
  Item :: "item option"

record update_item_response =
  Attributes :: "item option"

record page =
  Items :: "item list option"
  LastEvaluatedKey :: "item option"

text \<open>
  \<open>self.table\<close>: the handle \<open>boto3.resource("dynamodb").Table(table_name)\<close>. The client
  library is not part of the repository, so the handle is a parameter: a record of its
  operations over a store state \<open>'s\<close>, each returning the response or the exception it
  raises, and the new store state. \<open>writer_put_item\<close> and \<open>writer_exit\<close> are the
  \<open>put_item\<close> and \<open>__exit__\<close> of the object \<open>batch_writer()\<close> returns; its
  \<open>__exit__\<close> returns \<open>None\<close>, so it never suppresses an exception of the body.
\<close>

record 's Table =
  name :: string
  put_item :: "item \<Rightarrow> 's \<Rightarrow> (exn + unit) \<times> 's"
  get_item :: "item \<Rightarrow> 's \<Rightarrow> (exn + get_item_response) \<times> 's"
  update_item :: "update_item_request \<Rightarrow> 's \<Rightarrow> (exn + update_item_response) \<times> 's"
  scan :: "read_request \<Rightarrow> 's \<Rightarrow> (exn + page) \<times> 's"
  delete_item :: "item \<Rightarrow> 's \<Rightarrow> (exn + unit) \<times> 's"
  query :: "read_request \<Rightarrow> 's \<Rightarrow> (exn + page) \<times> 's"
  writer_put_item :: "item \<Rightarrow> 's \<Rightarrow> (exn + unit) \<times> 's"
  writer_exit :: "'s \<Rightarrow> (exn + unit) \<times> 's"

section \<open>The logger\<close>

text \<open>
  What \<open>logger.error\<close> receives. The text of each message is kept as its template and
  the values interpolated into it, in the order of the source:
  \<^item> \<open>InsertManyFailed table\<close>: line 32;
  \<^item> \<open>InsertFailed item table\<close>: line 48;
  \<^item> \<open>FindFailed table\<close>: line 64;
  \<^item> \<open>ItemNotFound item_id table\<close>: line 75;
  \<^item> \<open>UpdateFailed item_id table\<close>: line 122;
  \<^item> \<open>ScanFailed table\<close>: line 155;
  \<^item> \<open>DeleteFailed item_id table\<close>: line 173;
  \<^item> \<open>SearchFailed field value\<close>: line 189.

  \<open>ERROR msg (Some (error_code, error_msg))\<close> is the line
  \<open>f"{msg}\n{error_code}:{error_msg}"\<close>, and \<open>ERROR msg None\<close> is \<open>f"{msg}"\<close>.
\<close>

datatype msg =
    InsertManyFailed string
  | InsertFailed item string
  | FindFailed string
  | ItemNotFound string string
  | UpdateFailed string string
  | ScanFailed string
  | DeleteFailed string string
  | SearchFailed string string

datatype log_record = ERROR msg "(string \<times> string) option"

text \<open>The table a message names, if it names one.\<close>

fun msg_table :: "msg \<Rightarrow> string option" where
  "msg_table (InsertManyFailed tn) = Some tn"
| "msg_table (InsertFailed i tn) = Some tn"
| "msg_table (FindFailed tn) = Some tn"
| "msg_table (ItemNotFound i tn) = Some tn"
| "msg_table (UpdateFailed i tn) = Some tn"
| "msg_table (ScanFailed tn) = Some tn"
| "msg_table (DeleteFailed i tn) = Some tn"
| "msg_table (SearchFailed f v) = None"

text \<open>The world a call runs in: the store behind the table handle and the log.\<close>

record 's world =
  store :: 's
  logged :: "log_record list"

definition logger_error :: "log_record \<Rightarrow> 's world \<Rightarrow> 's world" where
  "logger_error r w = w\<lparr>logged := logged w @ [r]\<rparr>"

text \<open>
  The handler every operation has:
  \<^verbatim>\<open>
  except ClientError as err:
      error_code = err.response['Error']['Code']
      error_msg = err.response['Error']['Message']
      logger.error(f"{msg}\n{error_code}:{error_msg}")
      raise
  \<close>
  It logs for a \<open>ClientError\<close> only; any other exception passes it untouched. The
  exception itself is re-raised by the caller of this function.
\<close>

definition except_ClientError :: "msg \<Rightarrow> exn \<Rightarrow> 's world \<Rightarrow> 's world" where
  "except_ClientError m err w =
     (case err of
        ClientError error_code error_msg \<Rightarrow> logger_error (ERROR m (Some (error_code, error_msg))) w
      | _ \<Rightarrow> w)"

section \<open>DynamoDbRepository\<close>

subsection \<open>insert_many\<close>

text \<open>The loop \<open>for item in data: writer.put_item(Item=item)\<close>.\<close>

fun writer_put_items :: "'s Table \<Rightarrow> item list \<Rightarrow> 's \<Rightarrow> (exn + unit) \<times> 's" where
  "writer_put_items t [] s = (Inr (), s)"
| "writer_put_items t (item # data) s =
     (case writer_put_item t item s of
        (Inl err, s') \<Rightarrow> (Inl err, s')
      | (Inr _, s') \<Rightarrow> writer_put_items t data s')"

text \<open>
  The \<open>with self.table.batch_writer() as writer\<close> block: \<open>__exit__\<close> runs whether the body
  raised or not; an exception of \<open>__exit__\<close> replaces the one of the body.
\<close>

definition with_batch_writer :: "'s Table \<Rightarrow> item list \<Rightarrow> 's \<Rightarrow> (exn + unit) \<times> 's" where
  "with_batch_writer t data s =
     (case writer_put_items t data s of
        (Inl err, s') \<Rightarrow>
          (case writer_exit t s' of
             (Inl err', s'') \<Rightarrow> (Inl err', s'')
           | (Inr _, s'') \<Rightarrow> (Inl err, s''))
      | (Inr _, s') \<Rightarrow> writer_exit t s')"

definition insert_many :: "'s Table \<Rightarrow> item list \<Rightarrow> 's world \<Rightarrow> (exn + unit) \<times> 's world" where
  "insert_many t data w =
     (case with_batch_writer t data (store w) of
        (Inl err, s') \<Rightarrow> (Inl err, except_ClientError (InsertManyFailed (name t)) err (w\<lparr>store := s'\<rparr>))
      | (Inr _, s') \<Rightarrow> (Inr (), w\<lparr>store := s'\<rparr>))"

subsection \<open>insert\<close>

definition insert_item :: "'s Table \<Rightarrow> item \<Rightarrow> 's world \<Rightarrow> (exn + unit) \<times> 's world" where
  "insert_item t item w =
     (case put_item t item (store w) of
        (Inl err, s') \<Rightarrow> (Inl err, except_ClientError (InsertFailed item (name t)) err (w\<lparr>store := s'\<rparr>))
      | (Inr _, s') \<Rightarrow> (Inr (), w\<lparr>store := s'\<rparr>))"

subsection \<open>find_by_id\<close>

text \<open>
  A \<open>raise\<close> without an expression re-raises the exception that is being handled. In
  the \<open>else\<close> branch of \<open>find_by_id\<close> the function itself handles none, so what is raised
  is the exception the caller is handling when it calls \<open>find_by_id\<close>, if there is one,
  and otherwise Python's \<open>RuntimeError\<close>. That exception of the caller is the argument
  \<open>active\<close>.
\<close>

definition bare_raise :: "exn option \<Rightarrow> exn" where
  "bare_raise active =
     (case active of
        None \<Rightarrow> RuntimeError ''No active exception to reraise''
      | Some e \<Rightarrow> e)"

definition find_by_id :: "'s Table \<Rightarrow> exn option \<Rightarrow> string \<Rightarrow> 's world \<Rightarrow> (exn + item) \<times> 's world" where
  "find_by_id t active item_id w =
     (case get_item t [''id'' \<mapsto> S item_id] (store w) of
        (Inl err, s') \<Rightarrow> (Inl err, except_ClientError (FindFailed (name t)) err (w\<lparr>store := s'\<rparr>))
      | (Inr response, s') \<Rightarrow>
          (case Item response of
             None \<Rightarrow>
               (Inl (bare_raise active),
                logger_error (ERROR (ItemNotFound item_id (name t)) None) (w\<lparr>store := s'\<rparr>))
           | Some item \<Rightarrow>
               if item \<noteq> Map.empty then (Inr item, w\<lparr>store := s'\<rparr>)
               else (Inl (bare_raise active),
                     logger_error (ERROR (ItemNotFound item_id (name t)) None) (w\<lparr>store := s'\<rparr>))))"

subsection \<open>update\<close>

text \<open>
  \<open>response['Attributes']\<close> raises \<open>KeyError\<close> when the response has no such key; that
  is in the \<open>else\<close> branch, outside the handler.
\<close>

definition update ::
  "'s Table \<Rightarrow> string \<Rightarrow> string \<Rightarrow> item \<Rightarrow> condition option \<Rightarrow> (string \<rightharpoonup> string) \<Rightarrow> 's world
     \<Rightarrow> (exn + item) \<times> 's world" where
  "update t item_id update_expression expression_attribute_values condition_expression
      expression_attribute_names w =
     (let condition_required = AttributeExists ''id'';
          condition_expression' =
            (case condition_expression of
               None \<Rightarrow> condition_required
             | Some c \<Rightarrow> And condition_required c)
      in case update_item t
             \<lparr>Key = [''id'' \<mapsto> S item_id],
              UpdateExpression = update_expression,
              ExpressionAttributeNames = expression_attribute_names,
              ExpressionAttributeValues = expression_attribute_values,
              ConditionExpression = condition_expression',
              ReturnValues = UPDATED_NEW\<rparr> (store w) of
           (Inl err, s') \<Rightarrow>
             (Inl err, except_ClientError (UpdateFailed item_id (name t)) err (w\<lparr>store := s'\<rparr>))
         | (Inr response, s') \<Rightarrow>
             (case Attributes response of
                None \<Rightarrow> (Inl (KeyError ''Attributes''), w\<lparr>store := s'\<rparr>)
              | Some attributes \<Rightarrow> (Inr attributes, w\<lparr>store := s'\<rparr>)))"

subsection \<open>find_all\<close>

text \<open>
  The \<open>while not done\<close> loop. \<open>scan_args\<close> is the dict that the loop mutates: once
  \<open>ExclusiveStartKey\<close> is set it stays until it is overwritten. \<open>if start_key\<close> is false
  for \<open>None\<close> and for an empty dict, \<open>done\<close> is true for \<open>None\<close> only. The loop runs
  as long as the store returns a cursor, so it is a partial function: \<open>None\<close> is a loop
  that never ends.
\<close>

partial_function (option) find_all_loop ::
  "'s Table \<Rightarrow> read_request \<Rightarrow> item option \<Rightarrow> item list \<Rightarrow> 's \<Rightarrow> ((exn + item list) \<times> 's) option" where
  "find_all_loop t scan_args start_key items s =
     (let scan_args' =
            (if start_key \<noteq> None \<and> start_key \<noteq> Some Map.empty
             then scan_args\<lparr>ExclusiveStartKey := start_key\<rparr> else scan_args)
      in case scan t scan_args' s of
           (Inl err, s') \<Rightarrow> Some (Inl err, s')
         | (Inr response, s') \<Rightarrow>
             (let items' = items @ (case Items response of None \<Rightarrow> [] | Some xs \<Rightarrow> xs);
                  start_key' = LastEvaluatedKey response
              in if start_key' = None then Some (Inr items', s')
                 else find_all_loop t scan_args' start_key' items' s'))"

text \<open>
  \<open>find_all\<close> itself. Line 146 assigns \<open>None\<close> to \<open>start_key\<close> before the loop, whatever
  the caller passed.
\<close>

definition find_all ::
  "'s Table \<Rightarrow> item option \<Rightarrow> int \<Rightarrow> 's world \<Rightarrow> ((exn + item list) \<times> 's world) option" where
  "find_all t start_key limit w =
     (let items = [];
          scan_args = \<lparr>Limit = Some limit, ExclusiveStartKey = None, FilterExpression = None\<rparr>;
          start_key = None
      in case find_all_loop t scan_args start_key items (store w) of
           None \<Rightarrow> None
         | Some (Inl err, s') \<Rightarrow>
             Some (Inl err, except_ClientError (ScanFailed (name t)) err (w\<lparr>store := s'\<rparr>))
         | Some (Inr items', s') \<Rightarrow> Some (Inr items', w\<lparr>store := s'\<rparr>))"

text \<open>
  The state of the loop of \<open>find_all\<close> after \<open>n\<close> more pages that each came with a cursor:
  the scan arguments, the cursor, the items so far and the store. \<open>None\<close> when the loop
  ends before that.
\<close>

fun after_pages ::
  "'s Table \<Rightarrow> nat \<Rightarrow> read_request \<Rightarrow> item option \<Rightarrow> item list \<Rightarrow> 's
     \<Rightarrow> (read_request \<times> item option \<times> item list \<times> 's) option" where
  "after_pages t 0 scan_args start_key items s = Some (scan_args, start_key, items, s)"
| "after_pages t (Suc n) scan_args start_key items s =
     (let scan_args' =
            (if start_key \<noteq> None \<and> start_key \<noteq> Some Map.empty
             then scan_args\<lparr>ExclusiveStartKey := start_key\<rparr> else scan_args)
      in case scan t scan_args' s of
           (Inl err, s') \<Rightarrow> None
         | (Inr response, s') \<Rightarrow>
             (let items' = items @ (case Items response of None \<Rightarrow> [] | Some xs \<Rightarrow> xs);
                  start_key' = LastEvaluatedKey response
              in if start_key' = None then None
                 else after_pages t n scan_args' start_key' items' s'))"

subsection \<open>delete\<close>

definition delete :: "'s Table \<Rightarrow> string \<Rightarrow> 's world \<Rightarrow> (exn + unit) \<times> 's world" where
  "delete t item_id w =
     (case delete_item t [''id'' \<mapsto> S item_id] (store w) of
        (Inl err, s') \<Rightarrow>
          (Inl err, except_ClientError (DeleteFailed item_id (name t)) err (w\<lparr>store := s'\<rparr>))
      | (Inr _, s') \<Rightarrow> (Inr (), w\<lparr>store := s'\<rparr>))"

subsection \<open>search\<close>

text \<open>
  One \<open>query\<close> with the filter \<open>Attr(field).contains(value)\<close> and nothing else;
  \<open>response['Items']\<close> raises \<open>KeyError\<close> when the key is missing. The cursor of the
  response is not read.
\<close>

definition search :: "'s Table \<Rightarrow> string \<Rightarrow> string \<Rightarrow> 's world \<Rightarrow> (exn + item list) \<times> 's world" where
  "search t field value w =
     (case query t \<lparr>Limit = None, ExclusiveStartKey = None,
                     FilterExpression = Some (Contains field (S value))\<rparr> (store w) of
        (Inl err, s') \<Rightarrow>
          (Inl err, except_ClientError (SearchFailed field value) err (w\<lparr>store := s'\<rparr>))
      | (Inr response, s') \<Rightarrow>
          (case Items response of
             None \<Rightarrow> (Inl (KeyError ''Items''), w\<lparr>store := s'\<rparr>)
           | Some items \<Rightarrow> (Inr items, w\<lparr>store := s'\<rparr>)))"

section \<open>A model of the managed table\<close>

text \<open>
  Modelled from the spec: the managed store behind the table handle (the external
  "managed table client" of the spec's section 6; the client library and the service are
  not in the repository). It is a table keyed by the string field \<open>id\<close>:
  \<^item> \<open>table_items\<close>: the stored items, in the order a scan returns them;
  \<^item> \<open>page_size\<close>: how many items the store reads for one page of a scan or a query
    (the store's bound on the size of a page);
  \<^item> \<open>faults\<close>: for each coming request, the exception the store or the client raises
    for it instead of serving it (throttling, a rejected request, no connection), or
    \<open>None\<close>; an empty list is no fault;
  \<^item> \<open>served\<close>: how many requests the store has received.
\<close>

record dynamo =
  table_items :: "item list"
  page_size :: nat
  faults :: "exn option list"
  served :: nat

definition key_of :: "item \<Rightarrow> string option" where
  "key_of it = (case it ''id'' of Some (S k) \<Rightarrow> Some k | _ \<Rightarrow> None)"

definition next_fault :: "dynamo \<Rightarrow> exn option" where
  "next_fault d = (case faults d of [] \<Rightarrow> None | f # fs \<Rightarrow> f)"

text \<open>A request arrives: it is counted, and it takes its entry of the faults.\<close>

definition receive :: "dynamo \<Rightarrow> exn option \<times> dynamo" where
  "receive d = (next_fault d, d\<lparr>faults := tl (faults d), served := Suc (served d)\<rparr>)"

definition ValidationException :: exn where
  "ValidationException = ClientError ''ValidationException'' ''The request is not valid''"

definition ConditionalCheckFailedException :: exn where
  "ConditionalCheckFailedException =
     ClientError ''ConditionalCheckFailedException'' ''The conditional request failed''"

definition lookup_item :: "string \<Rightarrow> item list \<Rightarrow> item option" where
  "lookup_item k xs = find (\<lambda>x. key_of x = Some k) xs"

fun upsert :: "string \<Rightarrow> item \<Rightarrow> item list \<Rightarrow> item list" where
  "upsert k it [] = [it]"
| "upsert k it (x # xs) = (if key_of x = Some k then it # xs else x # upsert k it xs)"

text \<open>put-item: writes the item under its id, over any item that has the same id.\<close>

definition ddb_put_item :: "item \<Rightarrow> dynamo \<Rightarrow> (exn + unit) \<times> dynamo" where
  "ddb_put_item it d =
     (case receive d of
        (Some e, d') \<Rightarrow> (Inl e, d')
      | (None, d') \<Rightarrow>
          (case key_of it of
             None \<Rightarrow> (Inl ValidationException, d')
           | Some k \<Rightarrow> (Inr (), d'\<lparr>table_items := upsert k it (table_items d')\<rparr>)))"

text \<open>get-item-by-key: the response has the key \<open>Item\<close> only when an item was found.\<close>

definition ddb_get_item :: "item \<Rightarrow> dynamo \<Rightarrow> (exn + get_item_response) \<times> dynamo" where
  "ddb_get_item key d =
     (case receive d of
        (Some e, d') \<Rightarrow> (Inl e, d')
      | (None, d') \<Rightarrow>
          (case key_of key of
             None \<Rightarrow> (Inl ValidationException, d')
           | Some k \<Rightarrow> (Inr \<lparr>Item = lookup_item k (table_items d')\<rparr>, d')))"

text \<open>delete-item-by-key: removes the item if there is one, and succeeds if there is none.\<close>

definition ddb_delete_item :: "item \<Rightarrow> dynamo \<Rightarrow> (exn + unit) \<times> dynamo" where
  "ddb_delete_item key d =
     (case receive d of
        (Some e, d') \<Rightarrow> (Inl e, d')
      | (None, d') \<Rightarrow>
          (case key_of key of
             None \<Rightarrow> (Inl ValidationException, d')
           | Some k \<Rightarrow>
               (Inr (), d'\<lparr>table_items := filter (\<lambda>x. key_of x \<noteq> Some k) (table_items d')\<rparr>)))"

text \<open>
  What a condition says of an item. \<open>contains\<close> is a substring test on a string and a
  membership test on a list; a field that is missing contains nothing. A condition on a
  key that holds no item is evaluated on the empty item.
\<close>

fun contains_val :: "val \<Rightarrow> val \<Rightarrow> bool" where
  "contains_val (S s) (S sub) = sublist sub s"
| "contains_val (L xs) v = (v \<in> set xs)"
| "contains_val _ _ = False"

fun holds :: "condition \<Rightarrow> item \<Rightarrow> bool" where
  "holds (AttributeExists a) it = (it a \<noteq> None)"
| "holds (AttributeNotExists a) it = (it a = None)"
| "holds (Contains a v) it = (case it a of None \<Rightarrow> False | Some x \<Rightarrow> contains_val x v)"
| "holds (Equals a v) it = (it a = Some v)"
| "holds (And c d) it = (holds c it \<and> holds d it)"
| "holds (Or c d) it = (holds c it \<or> holds d it)"
| "holds (NotCond c) it = (\<not> holds c it)"

text \<open>
  The update expression is a string in the store's own syntax, which the repository
  passes through. What it means is a parameter of the model: \<open>parse\<close> maps the expression,
  with its attribute names and values, to the actions it stands for, or to \<open>None\<close> when
  the store rejects it.
\<close>

datatype update_action = SetAttr string val | RemoveAttr string

type_synonym parser = "string \<Rightarrow> (string \<rightharpoonup> string) \<Rightarrow> item \<Rightarrow> update_action list option"

fun target :: "update_action \<Rightarrow> string" where
  "target (SetAttr a v) = a"
| "target (RemoveAttr a) = a"

fun apply_action :: "update_action \<Rightarrow> item \<Rightarrow> item" where
  "apply_action (SetAttr a v) it = it(a \<mapsto> v)"
| "apply_action (RemoveAttr a) it = it(a := None)"

text \<open>The part of an item under the given fields; a response leaves out an empty map.\<close>

definition attributes_of :: "string list \<Rightarrow> item \<Rightarrow> item option" where
  "attributes_of as it =
     (if list_all (\<lambda>a. it a = None) as then None else Some (it |` set as))"

text \<open>
  conditional update-item-with-expressions: the update is applied only if the condition
  holds of the item under the key, and fails as a whole otherwise. An update may not
  write the key. \<open>UPDATED_NEW\<close> answers with the fields the update wrote, as they are
  after it.
\<close>

definition ddb_update_item ::
  "parser \<Rightarrow> update_item_request \<Rightarrow> dynamo \<Rightarrow> (exn + update_item_response) \<times> dynamo" where
  "ddb_update_item parse req d =
     (case receive d of
        (Some e, d') \<Rightarrow> (Inl e, d')
      | (None, d') \<Rightarrow>
          (case key_of (Key req) of
             None \<Rightarrow> (Inl ValidationException, d')
           | Some k \<Rightarrow>
               (case parse (UpdateExpression req) (ExpressionAttributeNames req)
                       (ExpressionAttributeValues req) of
                  None \<Rightarrow> (Inl ValidationException, d')
                | Some actions \<Rightarrow>
                    if actions = [] \<or> ''id'' \<in> set (map target actions)
                    then (Inl ValidationException, d')
                    else
                      (let old = lookup_item k (table_items d');
                           current = (case old of None \<Rightarrow> Map.empty | Some it \<Rightarrow> it)
                       in if \<not> holds (ConditionExpression req) current
                          then (Inl ConditionalCheckFailedException, d')
                          else
                            (let new = fold apply_action actions
                                         (case old of None \<Rightarrow> [''id'' \<mapsto> S k] | Some it \<Rightarrow> it);
                                 attributes =
                                   (case ReturnValues req of
                                      NONE \<Rightarrow> None
                                    | ALL_OLD \<Rightarrow> old
                                    | UPDATED_OLD \<Rightarrow> attributes_of (map target actions) current
                                    | ALL_NEW \<Rightarrow> Some new
                                    | UPDATED_NEW \<Rightarrow> attributes_of (map target actions) new)
                             in (Inr \<lparr>Attributes = attributes\<rparr>,
                                 d'\<lparr>table_items := upsert k new (table_items d')\<rparr>))))))"

text \<open>
  scan-with-pagination and query-with-filter-expression. A query is taken as the spec
  describes it: given a filter and nothing else, it reads the table page by page as a
  scan does. One page reads at most
  \<open>Limit\<close> and at most \<open>page_size\<close> items, from the start of the table or from behind the
  item the cursor names, and returns those of them that pass the filter. When the page
  is full the response carries the key of the last item read as the cursor; when the
  table ended first it carries none. The client refuses a \<open>Limit\<close> below 1 before it
  sends anything.
\<close>

definition after :: "string \<Rightarrow> item list \<Rightarrow> item list" where
  "after k xs = tl (dropWhile (\<lambda>x. key_of x \<noteq> Some k) xs)"

definition last_key :: "item list \<Rightarrow> item option" where
  "last_key xs =
     (if xs = [] then None else map_option (\<lambda>k. [''id'' \<mapsto> S k]) (key_of (last xs)))"

definition passes :: "condition option \<Rightarrow> item \<Rightarrow> bool" where
  "passes f it = (case f of None \<Rightarrow> True | Some c \<Rightarrow> holds c it)"

definition read_from :: "read_request \<Rightarrow> item list \<Rightarrow> dynamo \<Rightarrow> (exn + page) \<times> dynamo" where
  "read_from req rest d =
     (let cap = (case Limit req of None \<Rightarrow> page_size d | Some n \<Rightarrow> min (nat n) (page_size d));
          evaluated = take cap rest
      in (Inr \<lparr>Items = Some (filter (passes (FilterExpression req)) evaluated),
               LastEvaluatedKey = (if cap \<le> length rest then last_key evaluated else None)\<rparr>, d))"

definition read_page :: "read_request \<Rightarrow> dynamo \<Rightarrow> (exn + page) \<times> dynamo" where
  "read_page req d =
     (if (case Limit req of None \<Rightarrow> False | Some n \<Rightarrow> n < 1)
      then (Inl (BotoCoreError ''ParamValidationError''), d)
      else
        (case receive d of
           (Some e, d') \<Rightarrow> (Inl e, d')
         | (None, d') \<Rightarrow>
             (case ExclusiveStartKey req of
                None \<Rightarrow> read_from req (table_items d') d'
              | Some c \<Rightarrow>
                  (case key_of c of
                     None \<Rightarrow> (Inl ValidationException, d')
                   | Some k \<Rightarrow> read_from req (after k (table_items d')) d'))))"

text \<open>
  The table handle of the model. The batch writer writes each item through as it gets
  it and has nothing left to send on exit.
\<close>

definition dynamodb_table :: "string \<Rightarrow> parser \<Rightarrow> dynamo Table" where
  "dynamodb_table tn parse =
     \<lparr>name = tn,
      put_item = ddb_put_item,
      get_item = ddb_get_item,
      update_item = ddb_update_item parse,
      scan = read_page,
      delete_item = ddb_delete_item,
      query = read_page,
      writer_put_item = ddb_put_item,
      writer_exit = (\<lambda>d. (Inr (), d))\<rparr>"

text \<open>
  A table is well formed when every item has a string id, no two items share one, and a
  page holds at least one item.
\<close>

definition wf_table :: "dynamo \<Rightarrow> bool" where
  "wf_table d \<longleftrightarrow>
     0 < page_size d \<and> list_all (\<lambda>x. key_of x \<noteq> None) (table_items d)
     \<and> distinct (map key_of (table_items d))"

definition fault_free :: "dynamo \<Rightarrow> bool" where
  "fault_free d \<longleftrightarrow> list_all (\<lambda>f. f = None) (faults d)"

text \<open>
  Where the next page of a scan starts when the loop of \<open>find_all\<close> holds the given
  cursor and scan arguments: at the start of the table, or behind the item the cursor
  names. \<open>rest\<close> is what is left to read.
\<close>

definition reads_from :: "item option \<Rightarrow> read_request \<Rightarrow> item list \<Rightarrow> item list \<Rightarrow> bool" where
  "reads_from start_key args xs rest \<longleftrightarrow>
     (start_key = None \<and> ExclusiveStartKey args = None \<and> rest = xs)
     \<or> (\<exists>k pre x. start_key = Some [''id'' \<mapsto> S k] \<and> xs = pre @ x # rest \<and> key_of x = Some k)"

section \<open>Example data\<close>

text \<open>
  Tables, items and worlds for the examples: a parser that reads every expression as
  \<open>set status = done\<close> and one that rejects every expression, the tables \<open>users\<close> and
  \<open>orders\<close>, three items, worlds with given items and faults and nothing logged, a
  store error, and a table handle whose \<open>get_item\<close> answers with an empty item.
\<close>

abbreviation set_done :: parser where
  "set_done \<equiv> (\<lambda>e n v. Some [SetAttr ''status'' (S ''done'')])"

abbreviation users :: "dynamo Table" where
  "users \<equiv> dynamodb_table ''users'' set_done"

abbreviation u1 :: item where
  "u1 \<equiv> [''id'' \<mapsto> S ''u1'', ''status'' \<mapsto> S ''active'']"

abbreviation world_of :: "item list \<Rightarrow> nat \<Rightarrow> dynamo world" where
  "world_of xs n \<equiv>
     \<lparr>store = \<lparr>table_items = xs, page_size = 2, faults = [], served = n\<rparr>, logged = []\<rparr>"

abbreviation u1_done :: item where
  "u1_done \<equiv> [''id'' \<mapsto> S ''u1'', ''status'' \<mapsto> S ''done'']"

abbreviation u2 :: item where
  "u2 \<equiv> [''id'' \<mapsto> S ''u2'', ''status'' \<mapsto> S ''idle'']"

abbreviation u3 :: item where
  "u3 \<equiv> [''id'' \<mapsto> S ''u3'', ''status'' \<mapsto> S ''inactive'']"

definition reject_all :: parser where
  "reject_all e n v = None"

definition orders :: "dynamo Table" where
  "orders = dynamodb_table ''orders'' reject_all"

abbreviation throttled :: exn where
  "throttled \<equiv> ClientError ''ThrottlingException'' ''Rate exceeded''"

abbreviation dynamo_of :: "item list \<Rightarrow> exn option list \<Rightarrow> nat \<Rightarrow> dynamo" where
  "dynamo_of xs fs n \<equiv> \<lparr>table_items = xs, page_size = 2, faults = fs, served = n\<rparr>"

abbreviation faulty_world :: "item list \<Rightarrow> exn option list \<Rightarrow> dynamo world" where
  "faulty_world xs fs \<equiv> \<lparr>store = dynamo_of xs fs 0, logged = []\<rparr>"

definition empty_item_reply :: "item \<Rightarrow> dynamo \<Rightarrow> (exn + get_item_response) \<times> dynamo" where
  "empty_item_reply key d = (Inr \<lparr>Item = Some Map.empty\<rparr>, d)"

definition replies_empty_item :: "dynamo Table" where
  "replies_empty_item = orders\<lparr>get_item := empty_item_reply\<rparr>"

section \<open>Facts about the model of the table\<close>

lemma key_of_key [simp]: "key_of [''id'' \<mapsto> S k] = Some k"
  by (simp add: key_of_def)

lemma key_of_SomeD: "key_of it = Some k \<Longrightarrow> it ''id'' = Some (S k)"
  by (auto simp: key_of_def split: option.splits val.splits)

lemma key_of_id: "it ''id'' = Some (S k) \<Longrightarrow> key_of it = Some k"
  by (simp add: key_of_def)

lemma lookup_upsert: "key_of it = Some k \<Longrightarrow> lookup_item k (upsert k it xs) = Some it"
  by (induction xs) (auto simp: lookup_item_def)

lemma lookup_filter: "lookup_item k (filter (\<lambda>x. key_of x \<noteq> Some k) xs) = None"
  by (induction xs) (auto simp: lookup_item_def)

lemma filter_absent: "lookup_item k xs = None \<Longrightarrow> filter (\<lambda>x. key_of x \<noteq> Some k) xs = xs"
  by (induction xs) (auto simp: lookup_item_def split: if_splits)

lemma lookup_SomeD: "lookup_item k xs = Some it \<Longrightarrow> key_of it = Some k"
  by (induction xs) (auto simp: lookup_item_def split: if_splits)

lemma table_simps [simp]:
  "name (dynamodb_table tn parse) = tn"
  "put_item (dynamodb_table tn parse) = ddb_put_item"
  "get_item (dynamodb_table tn parse) = ddb_get_item"
  "update_item (dynamodb_table tn parse) = ddb_update_item parse"
  "scan (dynamodb_table tn parse) = read_page"
  "delete_item (dynamodb_table tn parse) = ddb_delete_item"
  "query (dynamodb_table tn parse) = read_page"
  by (simp_all add: dynamodb_table_def)

lemma holds_required_empty:
  "\<not> holds (case ce of None \<Rightarrow> AttributeExists ''id'' | Some c \<Rightarrow> And (AttributeExists ''id'') c) Map.empty"
  by (cases ce) simp_all

lemma ddb_update_item_fail:
  "ddb_update_item parse req d = (Inl e, d') \<Longrightarrow> table_items d' = table_items d"
  by (auto simp: ddb_update_item_def receive_def Let_def
      split: option.splits if_splits return_values.splits)

lemma holds_requiredD:
  "holds (case ce of None \<Rightarrow> AttributeExists ''id'' | Some c \<Rightarrow> And (AttributeExists ''id'') c) it
     \<Longrightarrow> it ''id'' \<noteq> None"
  by (cases ce) simp_all

lemma fold_apply_action_other:
  "a \<notin> set (map target actions) \<Longrightarrow> fold apply_action actions it a = it a"
proof (induction actions arbitrary: it)
  case Nil
  then show ?case by simp
next
  case (Cons x xs)
  then show ?case by (cases x) auto
qed

lemma attributes_of_Some: "attributes_of as it = Some m \<Longrightarrow> m = it |` set as"
  by (simp add: attributes_of_def split: if_splits)

lemma u1_done_eq: "fold apply_action [SetAttr ''status'' (S ''done'')] u1 = u1_done"
  by (rule ext) simp

lemma status_done_eq: "u1_done |` set (map target [SetAttr ''status'' (S ''done'')]) = [''status'' \<mapsto> S ''done'']"
  by (rule ext) (simp add: restrict_map_def)

lemma holds_Contains:
  "holds (Contains field (S value)) it =
     (case it field of
        Some (S s) \<Rightarrow> sublist value s
      | Some (L xs) \<Rightarrow> S value \<in> set xs
      | _ \<Rightarrow> False)"
  by (simp split: option.splits val.splits)

lemma act_u1: "holds (Contains ''status'' (S ''act'')) u1"
  by (simp add: sublist_Cons_right)

lemma act_u2: "\<not> holds (Contains ''status'' (S ''act'')) u2"
  by (simp add: sublist_Cons_right)

lemma after_split:
  assumes "distinct (map key_of (pre @ x # rest))" and "key_of x = Some k"
  shows "after k (pre @ x # rest) = rest"
proof -
  have "\<And>y. y \<in> set pre \<Longrightarrow> key_of y \<noteq> Some k"
    using assms by (auto simp: image_iff)
  then have "dropWhile (\<lambda>y. key_of y \<noteq> Some k) (pre @ x # rest) = x # rest"
    using assms(2) by (simp add: dropWhile_append2)
  then show ?thesis by (simp add: after_def)
qed

lemma passes_None [simp]: "passes None = (\<lambda>x. True)"
  by (rule ext) (simp add: passes_def)

lemma reads_from_suffix: "reads_from start_key args xs rest \<Longrightarrow> \<exists>pre. xs = pre @ rest"
  unfolding reads_from_def by (metis append_Cons append_Nil append_assoc)

lemma scan_once:
  assumes "1 \<le> limit" and "next_fault d = None"
    and "distinct (map key_of (table_items d))"
    and "reads_from start_key args (table_items d) rest"
    and "Limit args = Some limit" and "FilterExpression args = None"
  shows "read_page
           (if start_key \<noteq> None \<and> start_key \<noteq> Some Map.empty
            then args\<lparr>ExclusiveStartKey := start_key\<rparr> else args) d
         = (Inr \<lparr>Items = Some (take (min (nat limit) (page_size d)) rest),
                 LastEvaluatedKey =
                   (if min (nat limit) (page_size d) \<le> length rest
                    then last_key (take (min (nat limit) (page_size d)) rest) else None)\<rparr>,
            d\<lparr>faults := tl (faults d), served := Suc (served d)\<rparr>)"
  using assms(4) unfolding reads_from_def
proof (elim disjE conjE exE)
  assume "start_key = None" "ExclusiveStartKey args = None" "rest = table_items d"
  then show ?thesis
    using assms(1,2,5,6) by (simp add: read_page_def read_from_def receive_def Let_def)
next
  fix k pre x
  assume a: "start_key = Some [''id'' \<mapsto> S k]" "table_items d = pre @ x # rest" "key_of x = Some k"
  have ne: "[''id'' \<mapsto> S k] \<noteq> Map.empty" by simp
  have af: "after k (table_items d) = rest"
    using assms(3) a(2,3) by (simp add: after_split)
  show ?thesis
    using assms(1,2,5,6) a(1) ne af
    by (simp add: read_page_def read_from_def receive_def Let_def del: fun_upd_apply)
qed

lemma fault_free_next: "fault_free d \<Longrightarrow> next_fault d = None"
  by (cases "faults d") (simp_all add: fault_free_def next_fault_def)

lemma fault_free_tl: "fault_free d \<Longrightarrow> fault_free (d\<lparr>faults := tl (faults d), served := n\<rparr>)"
  by (cases "faults d") (simp_all add: fault_free_def)

lemma find_all_loop_page:
  assumes "scan t (if start_key \<noteq> None \<and> start_key \<noteq> Some Map.empty
                   then args\<lparr>ExclusiveStartKey := start_key\<rparr> else args) s = (Inr response, s')"
  shows "find_all_loop t args start_key acc s =
     (if LastEvaluatedKey response = None
      then Some (Inr (acc @ (case Items response of None \<Rightarrow> [] | Some xs \<Rightarrow> xs)), s')
      else find_all_loop t
             (if start_key \<noteq> None \<and> start_key \<noteq> Some Map.empty
              then args\<lparr>ExclusiveStartKey := start_key\<rparr> else args)
             (LastEvaluatedKey response)
             (acc @ (case Items response of None \<Rightarrow> [] | Some xs \<Rightarrow> xs)) s')"
  by (subst find_all_loop.simps) (simp only: Let_def assms prod.case sum.case)

lemma find_all_loop_raise:
  assumes "scan t (if start_key \<noteq> None \<and> start_key \<noteq> Some Map.empty
                   then args\<lparr>ExclusiveStartKey := start_key\<rparr> else args) s = (Inl err, s')"
  shows "find_all_loop t args start_key acc s = Some (Inl err, s')"
  by (subst find_all_loop.simps) (simp only: Let_def assms prod.case sum.case)

lemma find_all_loop_reads_all:
  fixes d :: dynamo
  assumes "1 \<le> limit"
  shows "\<lbrakk>0 < page_size d; fault_free d; list_all (\<lambda>x. key_of x \<noteq> None) (table_items d);
      distinct (map key_of (table_items d)); reads_from start_key args (table_items d) rest;
      Limit args = Some limit; FilterExpression args = None\<rbrakk>
    \<Longrightarrow> \<exists>d'. find_all_loop (dynamodb_table tn parse) args start_key acc d = Some (Inr (acc @ rest), d')
          \<and> table_items d' = table_items d \<and> page_size d' = page_size d
          \<and> served d' = served d + length rest div min (nat limit) (page_size d) + 1"
proof (induction "length rest" arbitrary: rest args start_key acc d rule: less_induct)
  case less
  let ?t = "dynamodb_table tn parse"
  let ?args = "if start_key \<noteq> None \<and> start_key \<noteq> Some Map.empty
               then args\<lparr>ExclusiveStartKey := start_key\<rparr> else args"
  define cap where "cap = min (nat limit) (page_size d)"
  let ?d1 = "d\<lparr>faults := tl (faults d), served := Suc (served d)\<rparr>"
  let ?page = "take cap rest"
  have cap: "0 < cap" using assms less.prems(1) by (simp add: cap_def)
  have nf: "next_fault d = None" using less.prems(2) by (rule fault_free_next)
  have sc: "scan ?t ?args d =
      (Inr \<lparr>Items = Some ?page,
             LastEvaluatedKey = (if cap \<le> length rest then last_key ?page else None)\<rparr>, ?d1)"
    unfolding cap_def
    using scan_once [OF assms nf less.prems(4) less.prems(5) less.prems(6) less.prems(7)]
    by simp
  show ?case
  proof (cases "cap \<le> length rest")
    case False
    then have "length rest \<le> cap" by linarith
    then have tk: "?page = rest" by (rule take_all)
    have "find_all_loop ?t args start_key acc d = Some (Inr (acc @ rest), ?d1)"
      using False by (simp only: find_all_loop_page [OF sc] tk page.simps if_False if_True
          option.case simp_thms)
    moreover have "length rest div cap = 0"
    proof -
      from False have "length rest < cap" by linarith
      then show ?thesis by (rule div_less)
    qed
    ultimately show ?thesis unfolding cap_def [symmetric] by simp
  next
    case True
    then have pne: "?page \<noteq> []" using cap by auto
    obtain pre where pre: "table_items d = pre @ rest"
      using reads_from_suffix [OF less.prems(5)] by blast
    have "last ?page \<in> set rest" using pne by (meson in_set_takeD last_in_set)
    then have "last ?page \<in> set (table_items d)" using pre by simp
    then have "key_of (last ?page) \<noteq> None"
      using less.prems(3) by (simp add: list_all_iff)
    then obtain k where k: "key_of (last ?page) = Some k" by blast
    have lk: "last_key ?page = Some [''id'' \<mapsto> S k]"
      using pne k by (simp add: last_key_def)
    have step: "find_all_loop ?t args start_key acc d =
        find_all_loop ?t ?args (Some [''id'' \<mapsto> S k]) (acc @ ?page) ?d1"
      using True by (simp only: find_all_loop_page [OF sc] lk page.simps if_False if_True
          option.case option.simps simp_thms)
    have split: "table_items ?d1 = (pre @ butlast ?page) @ last ?page # drop cap rest"
    proof -
      have "rest = ?page @ drop cap rest" by simp
      also have "\<dots> = (butlast ?page @ [last ?page]) @ drop cap rest"
        using pne by simp
      finally have "rest = butlast ?page @ last ?page # drop cap rest" by simp
      then have "pre @ rest = (pre @ butlast ?page) @ last ?page # drop cap rest"
        by (metis append_assoc)
      then show ?thesis using pre by simp
    qed
    have rf: "reads_from (Some [''id'' \<mapsto> S k]) ?args (table_items ?d1) (drop cap rest)"
      unfolding reads_from_def using split k by blast
    have shorter: "length (drop cap rest) < length rest"
    proof -
      have "length (drop cap rest) = length rest - cap" by (rule length_drop)
      then show ?thesis using True cap by linarith
    qed
    have la: "Limit ?args = Some limit" "FilterExpression ?args = None"
      using less.prems(6,7) by simp_all
    have ih: "\<exists>d'. find_all_loop ?t ?args (Some [''id'' \<mapsto> S k]) (acc @ ?page) ?d1
                 = Some (Inr ((acc @ ?page) @ drop cap rest), d')
          \<and> table_items d' = table_items ?d1 \<and> page_size d' = page_size ?d1
          \<and> served d' = served ?d1 + length (drop cap rest) div min (nat limit) (page_size ?d1) + 1"
    proof (rule less.hyps [OF shorter _ _ _ _ rf la])
      show "0 < page_size ?d1" using less.prems(1) by simp
      show "fault_free ?d1" using less.prems(2) by (rule fault_free_tl)
      show "list_all (\<lambda>x. key_of x \<noteq> None) (table_items ?d1)" using less.prems(3) by simp
      show "distinct (map key_of (table_items ?d1))" using less.prems(4) by simp
    qed
    have cnt: "Suc (served d) + (length rest - cap) div cap + 1 = served d + length rest div cap + 1"
      using True cap by (simp add: le_div_geq)
    from ih obtain d' where
      r: "find_all_loop ?t ?args (Some [''id'' \<mapsto> S k]) (acc @ ?page) ?d1
                 = Some (Inr ((acc @ ?page) @ drop cap rest), d')"
        "table_items d' = table_items ?d1" "page_size d' = page_size ?d1"
        "served d' = served ?d1 + length (drop cap rest) div min (nat limit) (page_size ?d1) + 1"
      by blast
    have "find_all_loop ?t args start_key acc d = Some (Inr (acc @ rest), d')"
      using step r(1) by simp
    moreover have "table_items d' = table_items d" using r(2) by simp
    moreover have "page_size d' = page_size d" using r(3) by simp
    moreover have "served d' = served d + length rest div cap + 1"
    proof -
      have "served d' = Suc (served d) + (length rest - cap) div cap + 1"
        using r(4) by (simp add: cap_def)
      then show ?thesis using cnt by simp
    qed
    ultimately show ?thesis unfolding cap_def [symmetric] by blast
  qed
qed

lemma find_all_loop_after_pages:
  "after_pages t n scan_args start_key items s = Some (scan_args', start_key', items', s')
   \<Longrightarrow> find_all_loop t scan_args start_key items s = find_all_loop t scan_args' start_key' items' s'"
proof (induction n arbitrary: scan_args start_key items s)
  case 0
  then show ?case by simp
next
  case (Suc n)
  let ?a = "if start_key \<noteq> None \<and> start_key \<noteq> Some Map.empty
            then scan_args\<lparr>ExclusiveStartKey := start_key\<rparr> else scan_args"
  obtain r s1 where sc: "scan t ?a s = (r, s1)" by (cases "scan t ?a s")
  show ?case
  proof (cases r)
    case (Inl err)
    with sc have sc': "scan t ?a s = (Inl err, s1)" by simp
    from Suc.prems have "None = Some (scan_args', start_key', items', s')"
      by (simp only: after_pages.simps Let_def sc' prod.case sum.case)
    then show ?thesis by simp
  next
    case (Inr response)
    with sc have sc': "scan t ?a s = (Inr response, s1)" by simp
    have u: "(if LastEvaluatedKey response = None then None
              else after_pages t n ?a (LastEvaluatedKey response)
                     (items @ (case Items response of None \<Rightarrow> [] | Some xs \<Rightarrow> xs)) s1)
          = Some (scan_args', start_key', items', s')"
      using Suc.prems by (simp only: after_pages.simps Let_def sc' prod.case sum.case)
    have ne: "LastEvaluatedKey response \<noteq> None"
    proof
      assume "LastEvaluatedKey response = None"
      with u have "None = Some (scan_args', start_key', items', s')"
        by (simp only: if_True simp_thms)
      then show False by simp
    qed
    have ap: "after_pages t n ?a (LastEvaluatedKey response)
            (items @ (case Items response of None \<Rightarrow> [] | Some xs \<Rightarrow> xs)) s1
          = Some (scan_args', start_key', items', s')"
      using u ne by (simp only: if_False simp_thms)
    have "find_all_loop t scan_args start_key items s =
        find_all_loop t ?a (LastEvaluatedKey response)
            (items @ (case Items response of None \<Rightarrow> [] | Some xs \<Rightarrow> xs)) s1"
      using ne by (simp only: find_all_loop_page [OF sc'] if_False)
    also have "\<dots> = find_all_loop t scan_args' start_key' items' s'"
      by (rule Suc.IH [OF ap])
    finally show ?thesis .
  qed
qed

lemma writer_put_items_raise:
  "writer_put_items t pre s = (Inr (), s1) \<Longrightarrow> writer_put_item t item s1 = (Inl err, s2)
   \<Longrightarrow> writer_put_items t (pre @ item # post) s = (Inl err, s2)"
proof (induction pre arbitrary: s)
  case Nil
  then show ?case by simp
next
  case (Cons x xs)
  then show ?case by (auto split: prod.splits sum.splits)
qed

lemma except_ClientError_ClientError:
  "except_ClientError m (ClientError c e) w = w\<lparr>logged := logged w @ [ERROR m (Some (c, e))]\<rparr>"
  by (simp add: except_ClientError_def logger_error_def)

lemma key_of_examples [simp]:
  "key_of u1 = Some ''u1''" "key_of u2 = Some ''u2''" "key_of u3 = Some ''u3''"
  by (simp_all add: key_of_def)

section \<open>Properties of the repository\<close>

text \<open>
  C1. An item written with \<open>insert\<close> and then read with \<open>find_by_id\<close> under its own id
  comes back as it was written: when the insert succeeded and the store serves the
  lookup, \<open>find_by_id\<close> returns that very item.
\<close>

theorem insert_then_find_by_id:
  assumes "insert_item (dynamodb_table tn parse) item w = (Inr (), v)"
    and "item ''id'' = Some (S item_id)"
    and "next_fault (store v) = None"
  shows "fst (find_by_id (dynamodb_table tn parse) active item_id v) = Inr item"
proof -
  have k: "key_of item = Some item_id" using assms(2) by (rule key_of_id)
  from assms(1) have "lookup_item item_id (table_items (store v)) = Some item"
    using k by (auto simp: insert_item_def ddb_put_item_def receive_def lookup_upsert
        split: prod.splits sum.splits option.splits)
  moreover have "item \<noteq> Map.empty" using assms(2) by auto
  ultimately show ?thesis using assms(3)
    by (simp add: find_by_id_def ddb_get_item_def receive_def)
qed

theorem insert_then_find_by_id_witness:
  "insert_item users u1 (world_of [] 0) = (Inr (), world_of [u1] 1)
   \<and> fst (find_by_id users None ''u1'' (world_of [u1] 1)) = Inr u1"
proof -
  have h1: "insert_item users u1 (world_of [] 0) = (Inr (), world_of [u1] 1)"
    by (simp add: insert_item_def ddb_put_item_def receive_def next_fault_def key_of_def)
  have h2: "u1 ''id'' = Some (S ''u1'')" by simp
  have h3: "next_fault (store (world_of [u1] 1)) = None" by (simp add: next_fault_def)
  show ?thesis using h1 insert_then_find_by_id [OF h1 h2 h3] by blast
qed

text \<open>
  An id the table holds no item of: the result of \<open>find_by_id\<close> is an exception, never
  an item. When the store serves the lookup, the exception is the one the bare \<open>raise\<close>
  produces, and the log names the id and the table. The same holds for an id right after
  a successful \<open>delete\<close>.
\<close>

theorem find_by_id_missing_raises:
  "(lookup_item item_id (table_items (store w)) = None \<longrightarrow>
      (\<exists>e w'. find_by_id (dynamodb_table tn parse) active item_id w = (Inl e, w')
         \<and> (next_fault (store w) = None \<longrightarrow>
               e = bare_raise active
               \<and> logged w' = logged w @ [ERROR (ItemNotFound item_id tn) None])))
   \<and> (delete (dynamodb_table tn parse) item_id w = (Inr (), v) \<longrightarrow>
        (\<exists>e w'. find_by_id (dynamodb_table tn parse) active item_id v = (Inl e, w')))
   \<and> bare_raise None = RuntimeError ''No active exception to reraise''"
proof (intro conjI impI)
  assume a: "lookup_item item_id (table_items (store w)) = None"
  show "\<exists>e w'. find_by_id (dynamodb_table tn parse) active item_id w = (Inl e, w')
         \<and> (next_fault (store w) = None \<longrightarrow>
               e = bare_raise active
               \<and> logged w' = logged w @ [ERROR (ItemNotFound item_id tn) None])"
    using a
    by (cases "next_fault (store w)")
      (simp_all add: find_by_id_def ddb_get_item_def receive_def logger_error_def)
next
  assume d: "delete (dynamodb_table tn parse) item_id w = (Inr (), v)"
  then have "lookup_item item_id (table_items (store v)) = None"
    by (auto simp: delete_def ddb_delete_item_def receive_def lookup_filter
        split: prod.splits sum.splits option.splits)
  then show "\<exists>e w'. find_by_id (dynamodb_table tn parse) active item_id v = (Inl e, w')"
    by (cases "next_fault (store v)")
      (simp_all add: find_by_id_def ddb_get_item_def receive_def)
next
  show "bare_raise None = RuntimeError ''No active exception to reraise''"
    by (simp add: bare_raise_def)
qed

theorem find_by_id_missing_raises_witness:
  "(\<exists>e w'. find_by_id users None ''u2'' (world_of [u1] 1) = (Inl e, w')
       \<and> e = RuntimeError ''No active exception to reraise''
       \<and> logged w' = [ERROR (ItemNotFound ''u2'' ''users'') None])
   \<and> delete users ''u1'' (world_of [u1] 1) = (Inr (), world_of [] 2)
   \<and> (\<exists>e w'. find_by_id users None ''u1'' (world_of [] 2) = (Inl e, w'))"
proof -
  have h1: "lookup_item ''u2'' (table_items (store (world_of [u1] 1))) = None"
    by (simp add: lookup_item_def key_of_def)
  have h2: "next_fault (store (world_of [u1] 1)) = None" by (simp add: next_fault_def)
  have h3: "delete users ''u1'' (world_of [u1] 1) = (Inr (), world_of [] 2)"
    by (simp add: delete_def ddb_delete_item_def receive_def next_fault_def key_of_def)
  note t = find_by_id_missing_raises
    [where item_id = "''u2''" and w = "world_of [u1] 1" and tn = "''users''" and parse = set_done
      and active = None and v = "world_of [] 2"]
  from t h1 h2 obtain e w' where
    f: "find_by_id users None ''u2'' (world_of [u1] 1) = (Inl e, w')" "e = bare_raise None"
      "logged w' = logged (world_of [u1] 1) @ [ERROR (ItemNotFound ''u2'' ''users'') None]"
    by blast
  from t have r: "bare_raise None = RuntimeError ''No active exception to reraise''"
    by blast
  from f(3) have l: "logged w' = [ERROR (ItemNotFound ''u2'' ''users'') None]"
    by simp
  from f(1) f(2) r l have a: "\<exists>e w'. find_by_id users None ''u2'' (world_of [u1] 1) = (Inl e, w')
       \<and> e = RuntimeError ''No active exception to reraise''
       \<and> logged w' = [ERROR (ItemNotFound ''u2'' ''users'') None]"
    by blast
  note t' = find_by_id_missing_raises
    [where item_id = "''u1''" and w = "world_of [u1] 1" and tn = "''users''" and parse = set_done
      and active = None and v = "world_of [] 2"]
  from t' h3 have b: "\<exists>e w'. find_by_id users None ''u1'' (world_of [] 2) = (Inl e, w')"
    by blast
  from a h3 b show ?thesis by blast
qed

text \<open>
  C2. \<open>find_by_id\<close> on an id the table holds no item of does not raise a not-found
  error. It logs that the item was not found and runs the bare \<open>raise\<close> of line 77 with
  no exception being handled in \<open>find_by_id\<close>: the caller gets Python's \<open>RuntimeError\<close>
  "No active exception to reraise". When the caller is itself handling an exception, it
  gets that exception again; for a store error that is the exception a failed lookup
  raises. A reply with an empty item takes the same path, by the test \<open>if item\<close>.
\<close>

theorem find_by_id_raises_runtime_error:
  "find_by_id orders None ''u2'' (faulty_world [u1] []) =
     (Inl (RuntimeError ''No active exception to reraise''),
      \<lparr>store = dynamo_of [u1] [] 1, logged = [ERROR (ItemNotFound ''u2'' ''orders'') None]\<rparr>)
   \<and> find_by_id orders (Some throttled) ''u2'' (faulty_world [u1] []) =
     (Inl throttled,
      \<lparr>store = dynamo_of [u1] [] 1, logged = [ERROR (ItemNotFound ''u2'' ''orders'') None]\<rparr>)
   \<and> find_by_id orders None ''u2'' (faulty_world [u1] [Some throttled]) =
     (Inl throttled,
      \<lparr>store = dynamo_of [u1] [] 1,
       logged = [ERROR (FindFailed ''orders'') (Some (''ThrottlingException'', ''Rate exceeded''))]\<rparr>)
   \<and> find_by_id replies_empty_item None ''u2'' (faulty_world [] []) =
     (Inl (RuntimeError ''No active exception to reraise''),
      \<lparr>store = dynamo_of [] [] 0, logged = [ERROR (ItemNotFound ''u2'' ''orders'') None]\<rparr>)"
proof -
  have l: "lookup_item ''u2'' [u1] = None"
    by (simp add: lookup_item_def key_of_def)
  have g: "get_item orders [''id'' \<mapsto> S ''u2''] (store (faulty_world [u1] []))
      = (Inr \<lparr>Item = None\<rparr>, dynamo_of [u1] [] 1)"
    using l by (simp add: orders_def ddb_get_item_def receive_def next_fault_def del: fun_upd_apply)
  have f: "get_item orders [''id'' \<mapsto> S ''u2''] (store (faulty_world [u1] [Some throttled]))
      = (Inl throttled, dynamo_of [u1] [] 1)"
    by (simp add: orders_def ddb_get_item_def receive_def next_fault_def del: fun_upd_apply)
  have e: "get_item replies_empty_item [''id'' \<mapsto> S ''u2''] (store (faulty_world [] []))
      = (Inr \<lparr>Item = Some Map.empty\<rparr>, dynamo_of [] [] 0)"
    by (simp add: replies_empty_item_def empty_item_reply_def)
  have n: "name orders = ''orders''" "name replies_empty_item = ''orders''"
    by (simp_all add: orders_def replies_empty_item_def)
  show ?thesis
    apply (intro conjI)
    subgoal using g n by (simp add: find_by_id_def bare_raise_def logger_error_def del: fun_upd_apply)
    subgoal using g n by (simp add: find_by_id_def bare_raise_def logger_error_def del: fun_upd_apply)
    subgoal using f n
      by (simp add: find_by_id_def except_ClientError_def logger_error_def del: fun_upd_apply)
    subgoal using e n by (simp add: find_by_id_def bare_raise_def logger_error_def del: fun_upd_apply)
    done
qed

text \<open>
  C8. \<open>delete\<close> is idempotent. After a delete that succeeded the table holds no item of
  that id. Deleting an id the table holds no item of succeeds when the store serves the
  request, changes no item and logs nothing; so the second of two deletes of one id
  succeeds as the first did.
\<close>

theorem delete_idempotent:
  "(delete (dynamodb_table tn parse) item_id w = (Inr (), v) \<longrightarrow>
      lookup_item item_id (table_items (store v)) = None)
   \<and> (lookup_item item_id (table_items (store w)) = None \<and> next_fault (store w) = None \<longrightarrow>
        (\<exists>w'. delete (dynamodb_table tn parse) item_id w = (Inr (), w')
           \<and> table_items (store w') = table_items (store w) \<and> logged w' = logged w))
   \<and> (delete (dynamodb_table tn parse) item_id w = (Inr (), v) \<and> next_fault (store v) = None \<longrightarrow>
        (\<exists>v2. delete (dynamodb_table tn parse) item_id v = (Inr (), v2)
           \<and> table_items (store v2) = table_items (store v) \<and> logged v2 = logged v))"
proof -
  have a: "lookup_item item_id (table_items (store x')) = None"
    if "delete (dynamodb_table tn parse) item_id x = (Inr (), x')" for x x'
    using that
    by (auto simp: delete_def ddb_delete_item_def receive_def lookup_filter
        split: prod.splits sum.splits option.splits)
  have b: "\<exists>x'. delete (dynamodb_table tn parse) item_id x = (Inr (), x')
           \<and> table_items (store x') = table_items (store x) \<and> logged x' = logged x"
    if "lookup_item item_id (table_items (store x)) = None" "next_fault (store x) = None" for x
    using that
    by (simp add: delete_def ddb_delete_item_def receive_def filter_absent)
  show ?thesis using a b by blast
qed

theorem delete_idempotent_witness:
  "delete users ''u1'' (world_of [u1] 1) = (Inr (), world_of [] 2)
   \<and> lookup_item ''u1'' (table_items (store (world_of [] 2))) = None
   \<and> (\<exists>v2. delete users ''u1'' (world_of [] 2) = (Inr (), v2)
         \<and> table_items (store v2) = [] \<and> logged v2 = [])"
proof -
  have h1: "delete users ''u1'' (world_of [u1] 1) = (Inr (), world_of [] 2)"
    by (simp add: delete_def ddb_delete_item_def receive_def next_fault_def key_of_def)
  have h2: "next_fault (store (world_of [] 2)) = None" by (simp add: next_fault_def)
  note t = delete_idempotent
    [where item_id = "''u1''" and w = "world_of [u1] 1" and tn = "''users''" and parse = set_done
      and v = "world_of [] 2"]
  from t h1 have a: "lookup_item ''u1'' (table_items (store (world_of [] 2))) = None"
    by blast
  from t h1 h2 have b: "\<exists>v2. delete users ''u1'' (world_of [] 2) = (Inr (), v2)
         \<and> table_items (store v2) = table_items (store (world_of [] 2))
         \<and> logged v2 = logged (world_of [] 2)"
    by blast
  then have b': "\<exists>v2. delete users ''u1'' (world_of [] 2) = (Inr (), v2)
         \<and> table_items (store v2) = [] \<and> logged v2 = []"
    by simp
  from h1 a b' show ?thesis by blast
qed

text \<open>
  C10. \<open>find_all\<close> ignores its \<open>start_key\<close> argument: whatever is passed, the result and
  the effects are those of a call with \<open>None\<close>, because the scan starts without a cursor.
\<close>

theorem find_all_ignores_start_key:
  "find_all t start_key limit w = find_all t None limit w"
  by (simp add: find_all_def)

text \<open>
  C6. \<open>update\<close> on an id the table holds no item of fails: the result is an exception, no
  item is created and the items of the table are as before. When the store serves the
  request and accepts the update expression, the exception is the condition failure of
  the store, which is logged with the id and the table.
\<close>

theorem update_missing_id_fails:
  "lookup_item item_id (table_items (store w)) = None \<longrightarrow>
     (\<exists>e w'. update (dynamodb_table tn parse) item_id ue vals ce names w = (Inl e, w')
        \<and> table_items (store w') = table_items (store w)
        \<and> lookup_item item_id (table_items (store w')) = None
        \<and> (next_fault (store w) = None
             \<and> (\<exists>as. parse ue names vals = Some as \<and> as \<noteq> [] \<and> ''id'' \<notin> set (map target as))
            \<longrightarrow> e = ConditionalCheckFailedException
                \<and> logged w' = logged w @
                     [ERROR (UpdateFailed item_id tn)
                        (Some (''ConditionalCheckFailedException'', ''The conditional request failed''))]))"
proof
  assume a: "lookup_item item_id (table_items (store w)) = None"
  let ?req = "\<lparr>Key = [''id'' \<mapsto> S item_id], UpdateExpression = ue,
      ExpressionAttributeNames = names, ExpressionAttributeValues = vals,
      ConditionExpression = (case ce of None \<Rightarrow> AttributeExists ''id'' | Some c \<Rightarrow> And (AttributeExists ''id'') c),
      ReturnValues = UPDATED_NEW\<rparr>"
  have "\<exists>e d'. ddb_update_item parse ?req (store w) = (Inl e, d') \<and> table_items d' = table_items (store w)
      \<and> (next_fault (store w) = None
             \<and> (\<exists>as. parse ue names vals = Some as \<and> as \<noteq> [] \<and> ''id'' \<notin> set (map target as))
            \<longrightarrow> e = ConditionalCheckFailedException)"
    using a holds_required_empty [of ce]
    by (auto simp: ddb_update_item_def receive_def Let_def split: option.splits)
  then obtain e d' where
    r: "ddb_update_item parse ?req (store w) = (Inl e, d')" "table_items d' = table_items (store w)"
      "next_fault (store w) = None
             \<and> (\<exists>as. parse ue names vals = Some as \<and> as \<noteq> [] \<and> ''id'' \<notin> set (map target as))
            \<longrightarrow> e = ConditionalCheckFailedException"
    by blast
  have u: "update (dynamodb_table tn parse) item_id ue vals ce names w
       = (Inl e, except_ClientError (UpdateFailed item_id tn) e (w\<lparr>store := d'\<rparr>))"
    using r(1) by (simp add: update_def)
  have s: "store (except_ClientError (UpdateFailed item_id tn) e (w\<lparr>store := d'\<rparr>)) = d'"
    by (simp add: except_ClientError_def logger_error_def split: exn.splits)
  have l: "e = ConditionalCheckFailedException \<Longrightarrow>
       logged (except_ClientError (UpdateFailed item_id tn) e (w\<lparr>store := d'\<rparr>)) = logged w @
                     [ERROR (UpdateFailed item_id tn)
                        (Some (''ConditionalCheckFailedException'', ''The conditional request failed''))]"
    by (simp add: except_ClientError_def logger_error_def ConditionalCheckFailedException_def)
  show "\<exists>e w'. update (dynamodb_table tn parse) item_id ue vals ce names w = (Inl e, w')
        \<and> table_items (store w') = table_items (store w)
        \<and> lookup_item item_id (table_items (store w')) = None
        \<and> (next_fault (store w) = None
             \<and> (\<exists>as. parse ue names vals = Some as \<and> as \<noteq> [] \<and> ''id'' \<notin> set (map target as))
            \<longrightarrow> e = ConditionalCheckFailedException
                \<and> logged w' = logged w @
                     [ERROR (UpdateFailed item_id tn)
                        (Some (''ConditionalCheckFailedException'', ''The conditional request failed''))])"
    using u s l r(2) r(3) a by (intro exI [of _ e] exI [of _ "except_ClientError (UpdateFailed item_id tn) e (w\<lparr>store := d'\<rparr>)"]) simp
qed

theorem update_missing_id_fails_witness:
  "\<exists>e w'. update users ''u2'' ''set #S = :s'' ['':s'' \<mapsto> S ''done''] None [''#S'' \<mapsto> ''status'']
              (world_of [u1] 1) = (Inl e, w')
     \<and> table_items (store w') = [u1]
     \<and> e = ConditionalCheckFailedException
     \<and> logged w' =
          [ERROR (UpdateFailed ''u2'' ''users'')
             (Some (''ConditionalCheckFailedException'', ''The conditional request failed''))]"
proof -
  have h1: "lookup_item ''u2'' (table_items (store (world_of [u1] 1))) = None"
    by (simp add: lookup_item_def key_of_def)
  have h2: "next_fault (store (world_of [u1] 1)) = None" by (simp add: next_fault_def)
  have h3: "\<exists>as. set_done ''set #S = :s'' [''#S'' \<mapsto> ''status''] ['':s'' \<mapsto> S ''done''] = Some as
      \<and> as \<noteq> [] \<and> ''id'' \<notin> set (map target as)"
    by simp
  note t = update_missing_id_fails
    [where item_id = "''u2''" and w = "world_of [u1] 1" and tn = "''users''" and parse = set_done
      and ue = "''set #S = :s''" and vals = "['':s'' \<mapsto> S ''done'']" and ce = None
      and names = "[''#S'' \<mapsto> ''status'']"]
  from t h1 h2 h3 obtain e w' where
    f: "update users ''u2'' ''set #S = :s'' ['':s'' \<mapsto> S ''done''] None [''#S'' \<mapsto> ''status'']
              (world_of [u1] 1) = (Inl e, w')"
      "table_items (store w') = table_items (store (world_of [u1] 1))"
      "e = ConditionalCheckFailedException"
      "logged w' = logged (world_of [u1] 1) @
          [ERROR (UpdateFailed ''u2'' ''users'')
             (Some (''ConditionalCheckFailedException'', ''The conditional request failed''))]"
    by blast
  from f(2) have i: "table_items (store w') = [u1]" by simp
  from f(4) have l: "logged w' =
          [ERROR (UpdateFailed ''u2'' ''users'')
             (Some (''ConditionalCheckFailedException'', ''The conditional request failed''))]"
    by simp
  from f(1) i f(3) l show ?thesis by blast
qed

text \<open>
  C7. A successful \<open>update\<close> returns only what the update wrote, not the whole item: the
  returned map is the item as it is after the update, cut down to the fields the actions
  of the update expression write. Every other field is left as it was and is not
  returned; the key \<open>id\<close> is never among the returned fields.
\<close>

theorem update_returns_written_attributes:
  "update (dynamodb_table tn parse) item_id ue vals ce names w = (Inr attributes, w') \<longrightarrow>
     (\<exists>actions old new.
        parse ue names vals = Some actions
        \<and> lookup_item item_id (table_items (store w)) = Some old
        \<and> lookup_item item_id (table_items (store w')) = Some new
        \<and> new = fold apply_action actions old
        \<and> attributes = new |` set (map target actions)
        \<and> (\<forall>a. a \<notin> set (map target actions) \<longrightarrow> new a = old a \<and> attributes a = None)
        \<and> new ''id'' = Some (S item_id) \<and> attributes ''id'' = None \<and> attributes \<noteq> new)"
proof
  assume u: "update (dynamodb_table tn parse) item_id ue vals ce names w = (Inr attributes, w')"
  let ?c = "case ce of None \<Rightarrow> AttributeExists ''id'' | Some c \<Rightarrow> And (AttributeExists ''id'') c"
  let ?req = "\<lparr>Key = [''id'' \<mapsto> S item_id], UpdateExpression = ue,
      ExpressionAttributeNames = names, ExpressionAttributeValues = vals,
      ConditionExpression = ?c, ReturnValues = UPDATED_NEW\<rparr>"
  from u obtain resp where
    r: "ddb_update_item parse ?req (store w) = (Inr resp, store w')" "Attributes resp = Some attributes"
    by (auto simp: update_def Let_def split: prod.splits sum.splits option.splits)
  let ?d = "snd (receive (store w))"
  from r(1) obtain actions where
    p: "parse ue names vals = Some actions" "actions \<noteq> []" "''id'' \<notin> set (map target actions)"
    by (auto simp: ddb_update_item_def Let_def split: prod.splits option.splits if_splits)
  let ?old = "lookup_item item_id (table_items (store w))"
  let ?cur = "case ?old of None \<Rightarrow> Map.empty | Some it \<Rightarrow> it"
  from r(1) p have h: "holds ?c ?cur"
    by (auto simp: ddb_update_item_def receive_def Let_def split: prod.splits option.splits if_splits)
  then have "?cur ''id'' \<noteq> None" by (rule holds_requiredD)
  then obtain old where o: "?old = Some old" by (cases ?old) auto
  let ?new = "fold apply_action actions old"
  from r(1) have nf: "next_fault (store w) = None"
    by (auto simp: ddb_update_item_def receive_def split: option.splits)
  have c: "ddb_update_item parse ?req (store w) =
      (Inr \<lparr>Attributes = attributes_of (map target actions) ?new\<rparr>,
       (snd (receive (store w)))\<lparr>table_items := upsert item_id ?new (table_items (store w))\<rparr>)"
    using nf p o h by (simp add: ddb_update_item_def receive_def Let_def)
  from c r(1) have sw: "store w' =
       (snd (receive (store w)))\<lparr>table_items := upsert item_id ?new (table_items (store w))\<rparr>"
    and at: "Attributes resp = attributes_of (map target actions) ?new"
    by auto
  have s: "table_items (store w') = upsert item_id ?new (table_items (store w))"
    by (simp add: sw)
  have oid: "old ''id'' = Some (S item_id)"
    using o by (blast dest: lookup_SomeD key_of_SomeD)
  have nid: "?new ''id'' = Some (S item_id)"
    using p(3) oid by (simp add: fold_apply_action_other)
  have l: "lookup_item item_id (table_items (store w')) = Some ?new"
    using s nid by (simp add: lookup_upsert key_of_id)
  have a: "attributes = ?new |` set (map target actions)"
  proof -
    from at r(2) have "attributes_of (map target actions) ?new = Some attributes" by simp
    then show ?thesis by (rule attributes_of_Some)
  qed
  have aid: "attributes ''id'' = None"
    using a p(3) by (simp add: restrict_map_def)
  have ne: "attributes \<noteq> ?new"
    using aid nid by auto
  have other: "\<forall>a. a \<notin> set (map target actions) \<longrightarrow> ?new a = old a \<and> attributes a = None"
    using a by (simp add: fold_apply_action_other restrict_map_def)
  from p(1) o l a other nid aid ne
  show "\<exists>actions old new.
        parse ue names vals = Some actions
        \<and> lookup_item item_id (table_items (store w)) = Some old
        \<and> lookup_item item_id (table_items (store w')) = Some new
        \<and> new = fold apply_action actions old
        \<and> attributes = new |` set (map target actions)
        \<and> (\<forall>a. a \<notin> set (map target actions) \<longrightarrow> new a = old a \<and> attributes a = None)
        \<and> new ''id'' = Some (S item_id) \<and> attributes ''id'' = None \<and> attributes \<noteq> new"
    by blast
qed

theorem update_returns_written_attributes_witness:
  "update users ''u1'' ''set #S = :s'' ['':s'' \<mapsto> S ''done''] None [''#S'' \<mapsto> ''status'']
      (world_of [u1] 1) = (Inr [''status'' \<mapsto> S ''done''], world_of [u1_done] 2)
   \<and> (\<exists>actions old new.
        set_done ''set #S = :s'' [''#S'' \<mapsto> ''status''] ['':s'' \<mapsto> S ''done''] = Some actions
        \<and> lookup_item ''u1'' (table_items (store (world_of [u1] 1))) = Some old
        \<and> lookup_item ''u1'' (table_items (store (world_of [u1_done] 2))) = Some new
        \<and> new = fold apply_action actions old
        \<and> [''status'' \<mapsto> S ''done''] = new |` set (map target actions)
        \<and> (\<forall>a. a \<notin> set (map target actions) \<longrightarrow> new a = old a \<and> [''status'' \<mapsto> S ''done''] a = None)
        \<and> new ''id'' = Some (S ''u1'') \<and> [''status'' \<mapsto> S ''done''] ''id'' = None
        \<and> [''status'' \<mapsto> S ''done''] \<noteq> new)"
proof -
  have l: "lookup_item ''u1'' [u1] = Some u1"
    by (simp add: lookup_item_def key_of_def)
  have a: "attributes_of [''status''] u1_done = Some [''status'' \<mapsto> S ''done'']"
    using status_done_eq by (simp add: attributes_of_def)
  have k: "key_of u1 = Some ''u1''" by (simp add: key_of_def)
  have c: "holds (AttributeExists ''id'') u1" by simp
  have s: "ddb_update_item set_done
       \<lparr>Key = [''id'' \<mapsto> S ''u1''], UpdateExpression = ''set #S = :s'',
        ExpressionAttributeNames = [''#S'' \<mapsto> ''status''],
        ExpressionAttributeValues = ['':s'' \<mapsto> S ''done''],
        ConditionExpression = AttributeExists ''id'', ReturnValues = UPDATED_NEW\<rparr>
       (store (world_of [u1] 1))
     = (Inr \<lparr>Attributes = Some [''status'' \<mapsto> S ''done'']\<rparr>, store (world_of [u1_done] 2))"
    by (simp add: ddb_update_item_def receive_def next_fault_def Let_def l a u1_done_eq k c
        del: fun_upd_apply holds.simps)
  have h: "update users ''u1'' ''set #S = :s'' ['':s'' \<mapsto> S ''done''] None [''#S'' \<mapsto> ''status'']
      (world_of [u1] 1) = (Inr [''status'' \<mapsto> S ''done''], world_of [u1_done] 2)"
    using s by (simp add: update_def Let_def del: fun_upd_apply)
  note t = update_returns_written_attributes
    [where item_id = "''u1''" and w = "world_of [u1] 1" and tn = "''users''" and parse = set_done
      and ue = "''set #S = :s''" and vals = "['':s'' \<mapsto> S ''done'']" and ce = None
      and names = "[''#S'' \<mapsto> ''status'']" and attributes = "[''status'' \<mapsto> S ''done'']"
      and w' = "world_of [u1_done] 2"]
  from t h show ?thesis by blast
qed

text \<open>
  C3. The condition \<open>update\<close> sends to the store: the existence check on \<open>id\<close> alone when
  the caller gives no condition, and the conjunction of that check and the caller's
  condition when there is one. This is so for every table handle. On an item the
  condition sent holds exactly when the item has an \<open>id\<close> and the caller's condition, if
  any, holds.
\<close>

theorem update_sends_required_condition:
  "update t item_id ue vals ce names w =
     (case update_item t
        \<lparr>Key = [''id'' \<mapsto> S item_id], UpdateExpression = ue,
         ExpressionAttributeNames = names, ExpressionAttributeValues = vals,
         ConditionExpression =
           (case ce of
              None \<Rightarrow> AttributeExists ''id''
            | Some c \<Rightarrow> And (AttributeExists ''id'') c),
         ReturnValues = UPDATED_NEW\<rparr> (store w) of
        (Inl err, s') \<Rightarrow>
          (Inl err, except_ClientError (UpdateFailed item_id (name t)) err (w\<lparr>store := s'\<rparr>))
      | (Inr response, s') \<Rightarrow>
          (case Attributes response of
             None \<Rightarrow> (Inl (KeyError ''Attributes''), w\<lparr>store := s'\<rparr>)
           | Some attributes \<Rightarrow> (Inr attributes, w\<lparr>store := s'\<rparr>)))
   \<and> holds (case ce of None \<Rightarrow> AttributeExists ''id'' | Some c \<Rightarrow> And (AttributeExists ''id'') c) it
       = (it ''id'' \<noteq> None \<and> (case ce of None \<Rightarrow> True | Some c \<Rightarrow> holds c it))"
  by (cases ce) (simp_all add: update_def)

text \<open>
  C5. \<open>search\<close> sends one query, with the filter "field contains value", and returns
  the items of the first page that pass it: those whose field is a string with \<open>value\<close>
  as a substring or a list with \<open>value\<close> as a member; an item without the field does not
  pass. When the whole table fits one page these are exactly the matching items of the
  table. The cursor of the response is not followed, so a match behind the first page is
  not returned.
\<close>

theorem search_first_page:
  "(next_fault (store w) = None \<longrightarrow>
      (\<exists>w'. search (dynamodb_table tn parse) field v w =
               (Inr (filter (holds (Contains field (S v)))
                       (take (page_size (store w)) (table_items (store w)))), w')
         \<and> served (store w') = Suc (served (store w))
         \<and> table_items (store w') = table_items (store w)
         \<and> logged w' = logged w))
   \<and> (next_fault (store w) = None \<and> length (table_items (store w)) \<le> page_size (store w) \<longrightarrow>
        fst (search (dynamodb_table tn parse) field v w) =
          Inr (filter (holds (Contains field (S v))) (table_items (store w))))
   \<and> holds (Contains field (S v)) it =
        (case it field of
           Some (S s) \<Rightarrow> sublist v s
         | Some (L xs) \<Rightarrow> S v \<in> set xs
         | _ \<Rightarrow> False)"
proof (intro conjI impI)
  assume nf: "next_fault (store w) = None"
  have p: "passes (Some (Contains field (S v))) = holds (Contains field (S v))"
    by (rule ext) (simp add: passes_def)
  have q: "read_page \<lparr>Limit = None, ExclusiveStartKey = None,
                     FilterExpression = Some (Contains field (S v))\<rparr> (store w)
      = (Inr \<lparr>Items = Some (filter (holds (Contains field (S v)))
                       (take (page_size (store w)) (table_items (store w)))),
              LastEvaluatedKey =
                (if page_size (store w) \<le> length (table_items (store w))
                 then last_key (take (page_size (store w)) (table_items (store w))) else None)\<rparr>,
         snd (receive (store w)))"
    using nf by (simp add: read_page_def read_from_def receive_def Let_def p del: holds.simps)
  show "\<exists>w'. search (dynamodb_table tn parse) field v w =
               (Inr (filter (holds (Contains field (S v)))
                       (take (page_size (store w)) (table_items (store w)))), w')
         \<and> served (store w') = Suc (served (store w))
         \<and> table_items (store w') = table_items (store w)
         \<and> logged w' = logged w"
    by (simp add: search_def q receive_def del: holds.simps)
next
  assume a: "next_fault (store w) = None \<and> length (table_items (store w)) \<le> page_size (store w)"
  have p: "passes (Some (Contains field (S v))) = holds (Contains field (S v))"
    by (rule ext) (simp add: passes_def)
  show "fst (search (dynamodb_table tn parse) field v w) =
          Inr (filter (holds (Contains field (S v))) (table_items (store w)))"
    using a by (simp add: search_def read_page_def read_from_def receive_def Let_def p del: holds.simps)
next
  show "holds (Contains field (S v)) it =
        (case it field of
           Some (S s) \<Rightarrow> sublist v s
         | Some (L xs) \<Rightarrow> S v \<in> set xs
         | _ \<Rightarrow> False)"
    by (rule holds_Contains)
qed

theorem search_first_page_witness:
  "(\<exists>w'. search users ''status'' ''act'' (world_of [u1, u2, u3] 0) = (Inr [u1], w')
       \<and> served (store w') = 1 \<and> table_items (store w') = [u1, u2, u3] \<and> logged w' = [])
   \<and> fst (search users ''status'' ''act'' (world_of [u1, u2] 0)) = Inr [u1]"
proof -
  have h: "next_fault (store (world_of xs 0)) = None" for xs
    by (simp add: next_fault_def)
  have e3: "filter (holds (Contains ''status'' (S ''act'')))
              (take (page_size (store (world_of [u1, u2, u3] 0)))
                 (table_items (store (world_of [u1, u2, u3] 0)))) = [u1]"
    using act_u1 act_u2 by (simp del: holds.simps fun_upd_apply)
  have e2: "filter (holds (Contains ''status'' (S ''act'')))
              (table_items (store (world_of [u1, u2] 0))) = [u1]"
    using act_u1 act_u2 by (simp del: holds.simps fun_upd_apply)
  have l2: "length (table_items (store (world_of [u1, u2] 0))) \<le> page_size (store (world_of [u1, u2] 0))"
    by simp
  note t3 = search_first_page
    [where w = "world_of [u1, u2, u3] 0" and tn = "''users''" and parse = set_done
      and field = "''status''" and v = "''act''"]
  from t3 h obtain w' where
    f: "search users ''status'' ''act'' (world_of [u1, u2, u3] 0) =
               (Inr (filter (holds (Contains ''status'' (S ''act'')))
                       (take (page_size (store (world_of [u1, u2, u3] 0)))
                          (table_items (store (world_of [u1, u2, u3] 0))))), w')"
      "served (store w') = Suc (served (store (world_of [u1, u2, u3] 0)))"
      "table_items (store w') = table_items (store (world_of [u1, u2, u3] 0))"
      "logged w' = logged (world_of [u1, u2, u3] 0)"
    by blast
  from f(1) have a: "search users ''status'' ''act'' (world_of [u1, u2, u3] 0) = (Inr [u1], w')"
    by (simp only: e3)
  from f(2) have b: "served (store w') = 1" by simp
  from f(3) have c: "table_items (store w') = [u1, u2, u3]" by simp
  from f(4) have d: "logged w' = []" by simp
  note t2 = search_first_page
    [where w = "world_of [u1, u2] 0" and tn = "''users''" and parse = set_done
      and field = "''status''" and v = "''act''"]
  from t2 h l2 have "fst (search users ''status'' ''act'' (world_of [u1, u2] 0)) =
          Inr (filter (holds (Contains ''status'' (S ''act''))) (table_items (store (world_of [u1, u2] 0))))"
    by blast
  then have g: "fst (search users ''status'' ''act'' (world_of [u1, u2] 0)) = Inr [u1]"
    by (simp only: e2)
  from a b c d g show ?thesis by blast
qed

text \<open>
  C4. \<open>find_all\<close> follows the cursor to the end of the table. On a well-formed table, with
  a \<open>limit\<close> of at least 1 and a store that serves every request, it returns, and what
  it returns is the items of the table, each once and in the order of the table: its
  length is the number of items and it has no duplicate. It sends one scan for each page,
  so at least two when the table holds more items than \<open>limit\<close>. Nothing is logged and
  the items of the table are not changed.
\<close>

theorem find_all_returns_whole_table:
  "wf_table (store w) \<and> fault_free (store w) \<and> 1 \<le> limit \<longrightarrow>
     (\<exists>items w'. find_all (dynamodb_table tn parse) start_key limit w = Some (Inr items, w')
        \<and> items = table_items (store w)
        \<and> length items = length (table_items (store w))
        \<and> distinct items
        \<and> table_items (store w') = table_items (store w)
        \<and> logged w' = logged w
        \<and> served (store w') =
            served (store w)
            + length (table_items (store w)) div min (nat limit) (page_size (store w)) + 1
        \<and> (limit < int (length (table_items (store w))) \<longrightarrow>
              served (store w) + 2 \<le> served (store w')))"
proof
  assume a: "wf_table (store w) \<and> fault_free (store w) \<and> 1 \<le> limit"
  let ?xs = "table_items (store w)"
  let ?args = "\<lparr>Limit = Some limit, ExclusiveStartKey = None, FilterExpression = None\<rparr>"
  let ?cap = "min (nat limit) (page_size (store w))"
  from a have lim: "1 \<le> limit" and ps: "0 < page_size (store w)" and ff: "fault_free (store w)"
    and keys: "list_all (\<lambda>x. key_of x \<noteq> None) ?xs" and dist: "distinct (map key_of ?xs)"
    by (simp_all add: wf_table_def)
  have rf: "reads_from None ?args ?xs ?xs" by (simp add: reads_from_def)
  have "\<exists>d'. find_all_loop (dynamodb_table tn parse) ?args None [] (store w) = Some (Inr ([] @ ?xs), d')
          \<and> table_items d' = ?xs \<and> page_size d' = page_size (store w)
          \<and> served d' = served (store w) + length ?xs div ?cap + 1"
    by (rule find_all_loop_reads_all [OF lim ps ff keys dist rf]) simp_all
  then obtain d' where
    r: "find_all_loop (dynamodb_table tn parse) ?args None [] (store w) = Some (Inr ?xs, d')"
      "table_items d' = ?xs" "served d' = served (store w) + length ?xs div ?cap + 1"
    by auto
  have f: "find_all (dynamodb_table tn parse) start_key limit w = Some (Inr ?xs, w\<lparr>store := d'\<rparr>)"
    using r(1) by (simp add: find_all_def)
  have d: "distinct ?xs" using dist by (simp add: distinct_map)
  have two: "served (store w) + 2 \<le> served d'" if "limit < int (length ?xs)"
  proof -
    have "0 < ?cap" using lim ps by simp
    moreover have "?cap \<le> length ?xs" using that by linarith
    ultimately have "0 < length ?xs div ?cap" by (simp only: div_greater_zero_iff)
    then show ?thesis using r(3) by linarith
  qed
  show "\<exists>items w'. find_all (dynamodb_table tn parse) start_key limit w = Some (Inr items, w')
        \<and> items = table_items (store w)
        \<and> length items = length (table_items (store w))
        \<and> distinct items
        \<and> table_items (store w') = table_items (store w)
        \<and> logged w' = logged w
        \<and> served (store w') =
            served (store w)
            + length (table_items (store w)) div min (nat limit) (page_size (store w)) + 1
        \<and> (limit < int (length (table_items (store w))) \<longrightarrow>
              served (store w) + 2 \<le> served (store w'))"
    using f d r(2) r(3) two
    by (intro exI [of _ ?xs] exI [of _ "w\<lparr>store := d'\<rparr>"]) simp
qed

theorem find_all_returns_whole_table_witness:
  "\<exists>w'. find_all users None 2 (world_of [u1, u2, u3] 0) = Some (Inr [u1, u2, u3], w')
     \<and> length [u1, u2, u3] = 3 \<and> distinct [u1, u2, u3]
     \<and> logged w' = [] \<and> served (store w') = 2"
proof -
  have h1: "wf_table (store (world_of [u1, u2, u3] 0))"
    by (simp add: wf_table_def key_of_def)
  have h2: "fault_free (store (world_of [u1, u2, u3] 0))"
    by (simp add: fault_free_def)
  have h3: "(1::int) \<le> 2" by simp
  note t = find_all_returns_whole_table
    [where w = "world_of [u1, u2, u3] 0" and tn = "''users''" and parse = set_done
      and limit = 2 and start_key = None]
  from t h1 h2 h3 obtain items w' where
    f: "find_all users None 2 (world_of [u1, u2, u3] 0) = Some (Inr items, w')"
      "items = table_items (store (world_of [u1, u2, u3] 0))"
      "distinct items"
      "logged w' = logged (world_of [u1, u2, u3] 0)"
      "served (store w') =
            served (store (world_of [u1, u2, u3] 0))
            + length (table_items (store (world_of [u1, u2, u3] 0)))
                div min (nat 2) (page_size (store (world_of [u1, u2, u3] 0))) + 1"
    by blast
  from f(2) have i: "items = [u1, u2, u3]" by simp
  from f(1) i have a: "find_all users None 2 (world_of [u1, u2, u3] 0) = Some (Inr [u1, u2, u3], w')"
    by simp
  from f(3) i have b: "distinct [u1, u2, u3]" by simp
  from f(4) have c: "logged w' = []" by simp
  from f(5) have d: "served (store w') = 2" by simp
  have e: "length [u1, u2, u3] = 3" by simp
  from a b c d e show ?thesis by blast
qed

text \<open>
  What every operation does with an exception of the table handle, whatever the handle
  and whatever the exception: it raises that exception, after the handler has logged it
  when it is a \<open>ClientError\<close>; in \<open>find_all\<close> on any page, with the items read so far
  dropped. In \<open>insert_many\<close> an exception of the writer's \<open>__exit__\<close> replaces one of the
  loop. An operation returns a value only when the handle returned one.
\<close>

lemma except_ClientError_other:
  "except_ClientError m (BotoCoreError x) w = w"
  "except_ClientError m (RuntimeError x) w = w"
  "except_ClientError m (KeyError x) w = w"
  by (simp_all add: except_ClientError_def)

lemma except_ClientError_store: "store (except_ClientError m e w) = store w"
  by (cases e) (simp_all add: except_ClientError_def logger_error_def)

lemma with_batch_writer_raises:
  "(writer_put_items t data s = (Inl e, s1) \<and> writer_exit t s1 = (Inr (), s2) \<longrightarrow>
      with_batch_writer t data s = (Inl e, s2))
   \<and> (writer_put_items t data s = (Inl e, s1) \<and> writer_exit t s1 = (Inl e', s2) \<longrightarrow>
      with_batch_writer t data s = (Inl e', s2))
   \<and> (writer_put_items t data s = (Inr (), s1) \<and> writer_exit t s1 = (Inl e', s2) \<longrightarrow>
      with_batch_writer t data s = (Inl e', s2))
   \<and> (with_batch_writer t data s = (Inr (), s2) \<longrightarrow>
      (\<exists>s1. writer_put_items t data s = (Inr (), s1) \<and> writer_exit t s1 = (Inr (), s2)))"
  by (auto simp: with_batch_writer_def split: prod.splits sum.splits)

lemma raised_exception_reaches_caller:
  "(with_batch_writer t data (store w) = (Inl e, s') \<longrightarrow>
      insert_many t data w =
        (Inl e, except_ClientError (InsertManyFailed (name t)) e (w\<lparr>store := s'\<rparr>)))
   \<and> (put_item t item (store w) = (Inl e, s') \<longrightarrow>
      insert_item t item w =
        (Inl e, except_ClientError (InsertFailed item (name t)) e (w\<lparr>store := s'\<rparr>)))
   \<and> (get_item t [''id'' \<mapsto> S item_id] (store w) = (Inl e, s') \<longrightarrow>
      find_by_id t active item_id w =
        (Inl e, except_ClientError (FindFailed (name t)) e (w\<lparr>store := s'\<rparr>)))
   \<and> (update_item t
         \<lparr>Key = [''id'' \<mapsto> S item_id], UpdateExpression = ue,
          ExpressionAttributeNames = names, ExpressionAttributeValues = vals,
          ConditionExpression =
            (case ce of None \<Rightarrow> AttributeExists ''id'' | Some x \<Rightarrow> And (AttributeExists ''id'') x),
          ReturnValues = UPDATED_NEW\<rparr> (store w) = (Inl e, s') \<longrightarrow>
      update t item_id ue vals ce names w =
        (Inl e, except_ClientError (UpdateFailed item_id (name t)) e (w\<lparr>store := s'\<rparr>)))
   \<and> (after_pages t n \<lparr>Limit = Some limit, ExclusiveStartKey = None, FilterExpression = None\<rparr>
          None [] (store w) = Some (scan_args, cursor, items, s1)
      \<and> scan t (if cursor \<noteq> None \<and> cursor \<noteq> Some Map.empty
                 then scan_args\<lparr>ExclusiveStartKey := cursor\<rparr> else scan_args) s1
          = (Inl e, s') \<longrightarrow>
      find_all t start_key limit w =
        Some (Inl e, except_ClientError (ScanFailed (name t)) e (w\<lparr>store := s'\<rparr>)))
   \<and> (delete_item t [''id'' \<mapsto> S item_id] (store w) = (Inl e, s') \<longrightarrow>
      delete t item_id w =
        (Inl e, except_ClientError (DeleteFailed item_id (name t)) e (w\<lparr>store := s'\<rparr>)))
   \<and> (query t \<lparr>Limit = None, ExclusiveStartKey = None,
                 FilterExpression = Some (Contains field (S v))\<rparr> (store w) = (Inl e, s') \<longrightarrow>
      search t field v w =
        (Inl e, except_ClientError (SearchFailed field v) e (w\<lparr>store := s'\<rparr>)))"
proof -
  have all: "find_all t start_key limit w =
      Some (Inl e, except_ClientError (ScanFailed (name t)) e (w\<lparr>store := s'\<rparr>))"
    if "after_pages t n \<lparr>Limit = Some limit, ExclusiveStartKey = None, FilterExpression = None\<rparr>
          None [] (store w) = Some (scan_args, cursor, items, s1)"
      "scan t (if cursor \<noteq> None \<and> cursor \<noteq> Some Map.empty
                 then scan_args\<lparr>ExclusiveStartKey := cursor\<rparr> else scan_args) s1
          = (Inl e, s')"
  proof -
    have "find_all_loop t \<lparr>Limit = Some limit, ExclusiveStartKey = None, FilterExpression = None\<rparr>
          None [] (store w) = find_all_loop t scan_args cursor items s1"
      using that(1) by (rule find_all_loop_after_pages)
    also have "\<dots> = Some (Inl e, s')"
      using that(2) by (rule find_all_loop_raise)
    finally show ?thesis by (simp add: find_all_def)
  qed
  show ?thesis
    apply (intro conjI impI)
    subgoal by (simp add: insert_many_def)
    subgoal by (simp add: insert_item_def)
    subgoal by (simp add: find_by_id_def)
    subgoal by (simp add: update_def Let_def)
    subgoal using all by blast
    subgoal by (simp add: delete_def)
    subgoal by (simp add: search_def)
    done
qed

lemma success_needs_store_success:
  "(insert_many t data w = (Inr x, w') \<longrightarrow>
      with_batch_writer t data (store w) = (Inr (), store w'))
   \<and> (insert_item t item w = (Inr x, w') \<longrightarrow> put_item t item (store w) = (Inr (), store w'))
   \<and> (find_by_id t active item_id w = (Inr found, w') \<longrightarrow>
        get_item t [''id'' \<mapsto> S item_id] (store w) = (Inr \<lparr>Item = Some found\<rparr>, store w')
        \<and> found \<noteq> Map.empty)
   \<and> (update t item_id ue vals ce names w = (Inr attributes, w') \<longrightarrow>
        update_item t
         \<lparr>Key = [''id'' \<mapsto> S item_id], UpdateExpression = ue,
          ExpressionAttributeNames = names, ExpressionAttributeValues = vals,
          ConditionExpression =
            (case ce of None \<Rightarrow> AttributeExists ''id'' | Some x \<Rightarrow> And (AttributeExists ''id'') x),
          ReturnValues = UPDATED_NEW\<rparr> (store w) = (Inr \<lparr>Attributes = Some attributes\<rparr>, store w'))
   \<and> (find_all t start_key limit w = Some (Inr found_all, w') \<longrightarrow>
        find_all_loop t \<lparr>Limit = Some limit, ExclusiveStartKey = None, FilterExpression = None\<rparr>
          None [] (store w) = Some (Inr found_all, store w'))
   \<and> (delete t item_id w = (Inr x, w') \<longrightarrow>
        delete_item t [''id'' \<mapsto> S item_id] (store w) = (Inr (), store w'))
   \<and> (search t field v w = (Inr found_all, w') \<longrightarrow>
        (\<exists>response. query t \<lparr>Limit = None, ExclusiveStartKey = None,
                 FilterExpression = Some (Contains field (S v))\<rparr> (store w)
          = (Inr response, store w') \<and> Items response = Some found_all))"
proof -
  have fb: "get_item t [''id'' \<mapsto> S item_id] (store w) = (Inr \<lparr>Item = Some found\<rparr>, store w')
        \<and> found \<noteq> Map.empty"
    if "find_by_id t active item_id w = (Inr found, w')"
    using that
    by (cases "get_item t [''id'' \<mapsto> S item_id] (store w)")
      (auto simp: find_by_id_def split: sum.splits option.splits if_splits)
  have se: "\<exists>response. query t \<lparr>Limit = None, ExclusiveStartKey = None,
                 FilterExpression = Some (Contains field (S v))\<rparr> (store w)
          = (Inr response, store w') \<and> Items response = Some found_all"
    if "search t field v w = (Inr found_all, w')"
    using that
    by (cases "query t \<lparr>Limit = None, ExclusiveStartKey = None,
                 FilterExpression = Some (Contains field (S v))\<rparr> (store w)")
      (auto simp: search_def split: sum.splits option.splits)
  show ?thesis
    apply (intro conjI impI)
    subgoal by (auto simp: insert_many_def split: prod.splits sum.splits)
    subgoal by (auto simp: insert_item_def split: prod.splits sum.splits)
    subgoal using fb by blast
    subgoal using fb by blast
    subgoal by (auto simp: update_def Let_def split: prod.splits sum.splits option.splits)
    subgoal by (auto simp: find_all_def split: prod.splits sum.splits option.splits)
    subgoal by (auto simp: delete_def split: prod.splits sum.splits)
    subgoal using se by blast
    done
qed

text \<open>
  C9. \<open>search\<close> on a store that reports an error logs the code and the message of the
  store and raises the error unchanged, but its message names the field and the value
  and not the table. \<open>delete\<close> on the same store logs a message that names the table,
  as the handlers of \<open>insert_many\<close>, \<open>insert\<close>, \<open>find_by_id\<close>, \<open>update\<close> and \<open>find_all\<close>
  do.
\<close>

theorem search_logs_no_table_name:
  "search orders ''status'' ''act'' (faulty_world [] [Some throttled]) =
     (Inl throttled,
      \<lparr>store = dynamo_of [] [] 1,
       logged = [ERROR (SearchFailed ''status'' ''act'')
                   (Some (''ThrottlingException'', ''Rate exceeded''))]\<rparr>)
   \<and> msg_table (SearchFailed ''status'' ''act'') = None
   \<and> msg_table (SearchFailed ''status'' ''act'') \<noteq> Some (name orders)
   \<and> delete orders ''u1'' (faulty_world [] [Some throttled]) =
     (Inl throttled,
      \<lparr>store = dynamo_of [] [] 1,
       logged = [ERROR (DeleteFailed ''u1'' ''orders'')
                   (Some (''ThrottlingException'', ''Rate exceeded''))]\<rparr>)
   \<and> msg_table (DeleteFailed ''u1'' ''orders'') = Some (name orders)"
  by (simp add: search_def delete_def orders_def read_page_def ddb_delete_item_def receive_def
      next_fault_def except_ClientError_def logger_error_def del: fun_upd_apply)

end
